theory Spec2Isabelle
  imports Complex_Main "HOL-Library.Sublist"
begin

section \<open>Floating-point values of the notebook\<close>

text \<open>
  The analysis cell of \<^verbatim>\<open>erase.ipynb\<close> computes with numpy \<^verbatim>\<open>float64\<close> scalars.
  A value is modelled as an exact real number or one of the three special values of
  IEEE 754 that the cell can produce and then compare: the two infinities and NaN.
  Rounding and overflow of finite values are not modelled, and the two zeros are one.
\<close>

datatype pyfloat = Finite real | PInf | NInf | NaN

text \<open>Python's \<^verbatim>\<open>abs(x)\<close>.\<close>

fun fabs :: "pyfloat \<Rightarrow> pyfloat" where
  "fabs (Finite a) = Finite \<bar>a\<bar>"
| "fabs PInf = PInf"
| "fabs NInf = PInf"
| "fabs NaN = NaN"

text \<open>Python's \<^verbatim>\<open>x <= y\<close> and \<^verbatim>\<open>x < y\<close>: every comparison with NaN is false.\<close>

fun fle :: "pyfloat \<Rightarrow> pyfloat \<Rightarrow> bool" where
  "fle NaN _ = False"
| "fle _ NaN = False"
| "fle (Finite a) (Finite b) = (a \<le> b)"
| "fle NInf _ = True"
| "fle _ PInf = True"
| "fle _ _ = False"

fun flt :: "pyfloat \<Rightarrow> pyfloat \<Rightarrow> bool" where
  "flt NaN _ = False"
| "flt _ NaN = False"
| "flt (Finite a) (Finite b) = (a < b)"
| "flt PInf _ = False"
| "flt _ NInf = False"
| "flt _ _ = True"

text \<open>Python's \<^verbatim>\<open>x > y\<close> is \<^verbatim>\<open>y < x\<close>.\<close>

definition fgt :: "pyfloat \<Rightarrow> pyfloat \<Rightarrow> bool" where
  "fgt x y = flt y x"

text \<open>
  \<^verbatim>\<open>x - y\<close> on float64: NaN propagates, and the difference of two infinities of the
  same sign is NaN.
\<close>

fun fsub :: "pyfloat \<Rightarrow> pyfloat \<Rightarrow> pyfloat" where
  "fsub NaN _ = NaN"
| "fsub _ NaN = NaN"
| "fsub (Finite a) (Finite b) = Finite (a - b)"
| "fsub (Finite a) PInf = NInf"
| "fsub (Finite a) NInf = PInf"
| "fsub PInf PInf = NaN"
| "fsub PInf _ = PInf"
| "fsub NInf NInf = NaN"
| "fsub NInf _ = NInf"

text \<open>
  \<^verbatim>\<open>x / y\<close> on numpy float64 raises nothing: a zero divisor gives NaN for a zero
  dividend and an infinity of the dividend's sign otherwise (the divisor of the cell is
  a standard deviation, a zero of positive sign), and numpy only warns.
\<close>

fun fdiv :: "pyfloat \<Rightarrow> pyfloat \<Rightarrow> pyfloat" where
  "fdiv NaN _ = NaN"
| "fdiv _ NaN = NaN"
| "fdiv (Finite a) (Finite b) =
     (if b = 0 then (if a = 0 then NaN else if 0 < a then PInf else NInf)
      else Finite (a / b))"
| "fdiv (Finite a) _ = Finite 0"
| "fdiv PInf (Finite b) = (if 0 \<le> b then PInf else NInf)"
| "fdiv NInf (Finite b) = (if 0 \<le> b then NInf else PInf)"
| "fdiv _ _ = NaN"

section \<open>Status classification\<close>

text \<open>
  The three status strings of the cell carry a decorative symbol before the tier's
  name; the tier is modelled as a constructor.
\<close>

datatype status = ALERT | NORMAL | EXTREME

text \<open>
  \<^verbatim>\<open>
  if 2.0 <= abs_std <= 3.0:   status = ALERT,   status_color = "#ff4444"
  elif abs_std < 2.0:         status = NORMAL,  status_color = "#44ff44"
  else:                       status = EXTREME, status_color = "#ff8800"
  \<close>
  A chained comparison \<^verbatim>\<open>a <= x <= b\<close> is \<^verbatim>\<open>a <= x and x <= b\<close>.
\<close>

definition determine_status :: "pyfloat \<Rightarrow> status \<times> string" where
  "determine_status abs_std =
     (if fle (Finite 2) abs_std \<and> fle abs_std (Finite 3) then (ALERT, ''#ff4444'')
      else if flt abs_std (Finite 2) then (NORMAL, ''#44ff44'')
      else (EXTREME, ''#ff8800''))"

text \<open>\<^verbatim>\<open>direction = "above" if std_away > 0 else "below"\<close>\<close>

definition direction_of :: "pyfloat \<Rightarrow> string" where
  "direction_of std_away = (if fgt std_away (Finite 0) then ''above'' else ''below'')"

text \<open>The \<^verbatim>\<open>'alert'\<close> entry of \<^verbatim>\<open>data_json\<close>: \<^verbatim>\<open>2.0 <= abs_std <= 3.0\<close>.\<close>

definition alert_of :: "pyfloat \<Rightarrow> bool" where
  "alert_of abs_std = (fle (Finite 2) abs_std \<and> fle abs_std (Finite 3))"

text \<open>
  The classifier as the cell applies it to the signed deviation \<^verbatim>\<open>std_away\<close>:
  status and alert from \<^verbatim>\<open>abs_std = abs(std_away)\<close>, direction from the sign.
\<close>

definition classify :: "pyfloat \<Rightarrow> status" where
  "classify std_away = fst (determine_status (fabs std_away))"

section \<open>Statistics engine\<close>

text \<open>
  A row of the downloaded table is a trading day and its closing price; a missing
  price (null) is \<open>None\<close>. Days are numbered; their rendering by \<^verbatim>\<open>strftime\<close> is not
  modelled. A price that is present is a finite real number.
\<close>

type_synonym date = nat

text \<open>\<^verbatim>\<open>closes = sp500['Close'].dropna()\<close>: the rows with a null price are dropped.\<close>

definition dropna :: "(date \<times> real option) list \<Rightarrow> (date \<times> real) list" where
  "dropna rows = List.map_filter (\<lambda>(d, c). map_option (Pair d) c) rows"

text \<open>
  \<^verbatim>\<open>closes.rolling(window=w)\<close>: the window of position \<open>i\<close> ends at \<open>i\<close>, inclusive,
  and starts \<open>w\<close> positions before its end, clipped at the start of the series:
  \<^verbatim>\<open>xs[max(0, i + 1 - w) : i + 1]\<close>.
\<close>

definition rolling_window :: "nat \<Rightarrow> nat \<Rightarrow> 'a list \<Rightarrow> 'a list" where
  "rolling_window w i xs = take (Suc i - (Suc i - w)) (drop (Suc i - w) xs)"

text \<open>
  The mean of a window: NaN unless the window holds at least \<open>minp\<close> observations
  (and at least one).
\<close>

definition roll_mean :: "nat \<Rightarrow> real list \<Rightarrow> pyfloat" where
  "roll_mean minp obs =
     (let nobs = length obs
      in if minp \<le> nobs \<and> 0 < nobs then Finite (sum_list obs / real nobs) else NaN)"

text \<open>
  The variance of a window with \<open>ddof\<close> delta degrees of freedom: the sum of the
  squared differences from the mean over \<open>nobs - ddof\<close>; NaN unless the window holds
  at least \<open>minp\<close> and more than \<open>ddof\<close> observations.
\<close>

definition roll_var :: "nat \<Rightarrow> nat \<Rightarrow> real list \<Rightarrow> pyfloat" where
  "roll_var minp ddof obs =
     (let nobs = length obs; mean_x = sum_list obs / real nobs
      in if minp \<le> nobs \<and> ddof < nobs
         then Finite ((\<Sum>x\<leftarrow>obs. (x - mean_x)\<^sup>2) / (real nobs - real ddof))
         else NaN)"

text \<open>The square root on float64: NaN below zero.\<close>

fun fsqrt :: "pyfloat \<Rightarrow> pyfloat" where
  "fsqrt (Finite a) = (if a < 0 then NaN else Finite (sqrt a))"
| "fsqrt PInf = PInf"
| "fsqrt NInf = NaN"
| "fsqrt NaN = NaN"

text \<open>
  pandas' \<^verbatim>\<open>closes.rolling(window=w).mean()\<close> and \<^verbatim>\<open>.std()\<close>: one entry per row;
  \<^verbatim>\<open>min_periods\<close> defaults to the window's size and \<^verbatim>\<open>ddof\<close> to 1 (the sample
  standard deviation).
\<close>

definition rolling_mean :: "nat \<Rightarrow> real list \<Rightarrow> pyfloat list" where
  "rolling_mean w xs = map (\<lambda>i. roll_mean w (rolling_window w i xs)) [0..<length xs]"

definition rolling_std :: "nat \<Rightarrow> real list \<Rightarrow> pyfloat list" where
  "rolling_std w xs =
     map (\<lambda>i. fsqrt (roll_var w 1 (rolling_window w i xs))) [0..<length xs]"

text \<open>The statistics engine as the spec words it, for comparison with the above:
  the samples at the \<open>w\<close> positions \<open>i + 1 - w, \<dots>, i\<close>, their arithmetic mean and their
  sample standard deviation.\<close>

definition trailing_samples :: "nat \<Rightarrow> nat \<Rightarrow> real list \<Rightarrow> real list" where
  "trailing_samples w i xs = map (\<lambda>k. xs ! (i + 1 - w + k)) [0..<w]"

definition arithmetic_mean :: "real list \<Rightarrow> real" where
  "arithmetic_mean ys = sum_list ys / real (length ys)"

definition sample_stddev :: "real list \<Rightarrow> real" where
  "sample_stddev ys =
     sqrt ((\<Sum>y\<leftarrow>ys. (y - arithmetic_mean ys)\<^sup>2) / (real (length ys) - 1))"

section \<open>The analysis cell\<close>

datatype py_error = IndexError | DownloadError

text \<open>\<^verbatim>\<open>s.iloc[-1]\<close>: the last entry; IndexError on an empty series.\<close>

definition iloc_last :: "'a list \<Rightarrow> py_error + 'a" where
  "iloc_last xs = (if xs = [] then Inl IndexError else Inr (last xs))"

text \<open>\<^verbatim>\<open>s.tail(n)\<close>: the last \<open>n\<close> entries, all of them when there are fewer.\<close>

definition tail :: "nat \<Rightarrow> 'a list \<Rightarrow> 'a list" where
  "tail n xs = drop (length xs - n) xs"

text \<open>
  The holes of the HTML template \<^verbatim>\<open>html_content\<close>, in the template's order. The
  formatting of a hole (\<^verbatim>\<open>:.2f\<close>, \<^verbatim>\<open>.title()\<close>, \<^verbatim>\<open>strftime\<close>) is not modelled:
  the record holds the value that is formatted.
\<close>

record html_content =
  html_status_color :: string
  html_last_updated :: string
  html_current_price :: pyfloat
  html_current_ma :: pyfloat
  html_direction :: string
  html_abs_std :: pyfloat
  html_labels :: "date list"
  html_prices :: "real list"
  html_mas :: "pyfloat list"

text \<open>
  The dictionary \<^verbatim>\<open>data_json\<close>, key by key. \<^verbatim>\<open>float(x)\<close> of a float64 is the same
  value, NaN included.
\<close>

record data_json =
  timestamp :: string
  current_price :: pyfloat
  ma_200 :: pyfloat
  std_200 :: pyfloat
  std_away :: pyfloat
  status :: status
  direction :: string
  alert :: bool

text \<open>
  The cell from \<^verbatim>\<open>closes = \<dots>\<close> to \<^verbatim>\<open>data_json = \<dots>\<close>, given the clock's reading
  and the downloaded table. Nothing in the cell catches an exception: the first one
  raised ends the run. Only the three \<^verbatim>\<open>iloc[-1]\<close> can raise: the arithmetic and the
  comparisons of float64 values raise nothing, and neither does formatting a NaN.
\<close>

definition analysis ::
  "string \<Rightarrow> (date \<times> real option) list \<Rightarrow> py_error + html_content \<times> data_json" where
  "analysis now sp500 =
     (let closes = dropna sp500;
          mas_200 = rolling_mean 200 (map snd closes);
          stds_200 = rolling_std 200 (map snd closes)
      in case iloc_last (map snd closes) of Inl e \<Rightarrow> Inl e | Inr price \<Rightarrow>
        (case iloc_last mas_200 of Inl e \<Rightarrow> Inl e | Inr current_ma \<Rightarrow>
        (case iloc_last stds_200 of Inl e \<Rightarrow> Inl e | Inr current_std \<Rightarrow>
          (let std_away = fdiv (fsub (Finite price) current_ma) current_std;
               last_30_days = tail 30 closes;
               ma_30_days = tail 30 mas_200;
               dates = map fst last_30_days;
               prices = map snd last_30_days;
               mas = ma_30_days;
               abs_std = fabs std_away;
               (status, status_color) = determine_status abs_std;
               direction = direction_of std_away
           in Inr
             (\<lparr>html_status_color = status_color, html_last_updated = now,
               html_current_price = Finite price, html_current_ma = current_ma,
               html_direction = direction, html_abs_std = abs_std,
               html_labels = dates, html_prices = prices, html_mas = mas\<rparr>,
              \<lparr>timestamp = now, current_price = Finite price, ma_200 = current_ma,
               std_200 = current_std, std_away = std_away, status = status,
               direction = direction, alert = alert_of abs_std\<rparr>)))))"

section \<open>The working directory\<close>

text \<open>
  A directory is a map from file names to contents. No step below looks inside a file.
\<close>

datatype content = Text string

type_synonym files = "string \<rightharpoonup> content"

text \<open>
  A run of the pipeline: the download (\<^verbatim>\<open>yf.download\<close>, whose outcome is a
  parameter: the table, or the exception it raised), then the analysis. The result is
  the exception that ended the run or the two documents, and the working directory the
  run leaves. The cell has no statement that writes a file: it ends once
  \<^verbatim>\<open>html_content\<close> and \<^verbatim>\<open>data_json\<close> are built, so the working directory is as
  before in every case.
\<close>

definition pipeline ::
  "string \<Rightarrow> py_error + (date \<times> real option) list \<Rightarrow> files
     \<Rightarrow> (py_error + html_content \<times> data_json) \<times> files" where
  "pipeline now download fs =
     (case download of
        Inl e \<Rightarrow> (Inl e, fs)
      | Inr sp500 \<Rightarrow> (analysis now sp500, fs))"

text \<open>
  The exit status of the Python process: 1 when an exception reaches the top level,
  0 when the script runs to its end.
\<close>

definition exit_status :: "py_error + 'a \<Rightarrow> nat" where
  "exit_status r = (case r of Inl _ \<Rightarrow> 1 | Inr _ \<Rightarrow> 0)"

section \<open>The scheduled job\<close>

text \<open>
  A shell pattern \<^verbatim>\<open>*.ext\<close> matches the names that end in \<^verbatim>\<open>.ext\<close> and do not start
  with a dot.
\<close>

definition glob_star :: "string \<Rightarrow> string \<Rightarrow> bool" where
  "glob_star ext name = (suffix ext name \<and> take 1 name \<noteq> ''.'')"

text \<open>
  \<^verbatim>\<open>cp *.ext /tmp/website-deploy/ 2>/dev/null || echo "No \<dots> files found"\<close>:
  every matching file is copied over, and a pattern that matches nothing changes nothing.
\<close>

definition cp_glob :: "string \<Rightarrow> files \<Rightarrow> files \<Rightarrow> files" where
  "cp_glob ext wd dst =
     (\<lambda>name. if glob_star ext name \<and> wd name \<noteq> None then wd name else dst name)"

definition fallback_index :: "string \<Rightarrow> content" where
  "fallback_index date_out = Text
     (''<html><head><title>S&P 500 Dashboard</title></head><body><h1>Dashboard Error</h1>''
      @ ''<p>Dashboard file not found</p><p>Generated: '' @ date_out
      @ ''</p></body></html>'')"

text \<open>
  Step "Run S&P 500 analysis":
  \<^verbatim>\<open>python sp500_monitor.py || echo "Full version failed, trying simple version"\<close>.
  The monitor process is a parameter: from the working directory it gives its exit
  status and the working directory it leaves. When the status is not 0 the \<^verbatim>\<open>echo\<close>
  runs, and the step's status is that of the \<^verbatim>\<open>echo\<close>.
\<close>

definition run_analysis :: "(files \<Rightarrow> nat \<times> files) \<Rightarrow> files \<Rightarrow> nat \<times> files" where
  "run_analysis monitor wd =
     (case monitor wd of (rc, wd') \<Rightarrow> if rc = 0 then (0, wd') else (0, wd'))"

text \<open>
  Step "Create temporary deployment directory": a new directory, the four copies, then
  \<^verbatim>\<open>index.html\<close> from the dashboard when it was copied and the error page otherwise.
\<close>

definition create_deploy_dir :: "string \<Rightarrow> files \<Rightarrow> files" where
  "create_deploy_dir date_out wd =
     (let d = cp_glob ''.log'' wd (cp_glob ''.json'' wd (cp_glob ''.png'' wd
                (cp_glob ''.html'' wd Map.empty)))
      in case d ''sp500_dashboard.html'' of
           Some c \<Rightarrow> d(''index.html'' \<mapsto> c)
         | None \<Rightarrow> d(''index.html'' \<mapsto> fallback_index date_out))"

text \<open>
  Step "Deploy to GitHub Pages": the publishing branch is emptied (\<^verbatim>\<open>git rm -rf .\<close>)
  and receives the files of the deployment directory, or an error page when that
  directory is empty; the commit and the push happen when this changed the branch, so
  the branch holds these files in either case.
\<close>

definition deploy_pages :: "files \<Rightarrow> files \<Rightarrow> files" where
  "deploy_pages dep pages =
     (if dom dep \<noteq> {} then dep
      else [''index.html'' \<mapsto>
              Text ''<html><body><h1>Error</h1><p>No dashboard files generated</p></body></html>''])"

text \<open>
  The job: a step whose status is not 0 ends it, and the publishing branch stays as
  it was; otherwise the branch after the deploy step.
\<close>

definition monitor_job ::
  "string \<Rightarrow> (files \<Rightarrow> nat \<times> files) \<Rightarrow> files \<Rightarrow> files \<Rightarrow> files" where
  "monitor_job date_out monitor wd pages =
     (case run_analysis monitor wd of (rc, wd') \<Rightarrow>
        if rc \<noteq> 0 then pages
        else deploy_pages (create_deploy_dir date_out wd') pages)"

text \<open>The pipeline of the notebook as the monitor process of the job.\<close>

definition pipeline_process ::
  "string \<Rightarrow> py_error + (date \<times> real option) list \<Rightarrow> files \<Rightarrow> nat \<times> files" where
  "pipeline_process now download wd =
     (case pipeline now download wd of (r, wd') \<Rightarrow> (exit_status r, wd'))"

section \<open>Synthetic price tables\<close>

text \<open>A flat table: 250 trading days, every close 100.\<close>

definition flat_series :: "(date \<times> real option) list" where
  "flat_series = map (\<lambda>d. (d, Some 100)) [0..<250]"

text \<open>
  A table of 200 trading days whose last close lies between two and three sample
  standard deviations above the mean of the 200 closes.
\<close>

definition alert_closes :: "real list" where
  "alert_closes = replicate 100 98 @ replicate 99 102 @ [105]"

definition alert_series :: "(date \<times> real option) list" where
  "alert_series = zip [0..<200] (map Some alert_closes)"

section \<open>Facts about the classifier\<close>

lemma analysis_Inr:
  assumes "analysis now sp500 = Inr (h, j)"
  shows "status j = fst (determine_status (fabs (std_away j)))"
    and "alert j = alert_of (fabs (std_away j))"
    and "direction j = direction_of (std_away j)"
  using assms
  by (auto simp: analysis_def Let_def split: sum.splits prod.splits)

lemma alert_iff: "alert_of a = (fst (determine_status a) = ALERT)"
  by (simp add: alert_of_def determine_status_def)

section \<open>Facts about the rolling statistics\<close>

lemma length_rolling_mean: "length (rolling_mean w xs) = length xs"
  by (simp add: rolling_mean_def)

lemma length_rolling_std: "length (rolling_std w xs) = length xs"
  by (simp add: rolling_std_def)

lemma nth_rolling_mean:
  "i < length xs \<Longrightarrow> rolling_mean w xs ! i = roll_mean w (rolling_window w i xs)"
  by (simp add: rolling_mean_def)

lemma nth_rolling_std:
  "i < length xs \<Longrightarrow> rolling_std w xs ! i = fsqrt (roll_var w 1 (rolling_window w i xs))"
  by (simp add: rolling_std_def)

lemma length_rolling_window:
  "i < length xs \<Longrightarrow> length (rolling_window w i xs) = min w (Suc i)"
  by (auto simp: rolling_window_def)

lemma rolling_window_full:
  assumes "i < length xs" and "w \<le> Suc i"
  shows "rolling_window w i xs = trailing_samples w i xs"
proof (rule nth_equalityI)
  show "length (rolling_window w i xs) = length (trailing_samples w i xs)"
    using assms by (simp add: length_rolling_window trailing_samples_def)
next
  fix k assume "k < length (rolling_window w i xs)"
  then have k: "k < w" using assms by (simp add: length_rolling_window)
  then show "rolling_window w i xs ! k = trailing_samples w i xs ! k"
    using assms by (simp add: rolling_window_def trailing_samples_def)
qed

lemma roll_mean_short: "length obs < minp \<Longrightarrow> roll_mean minp obs = NaN"
  by (simp add: roll_mean_def)

lemma roll_var_short: "length obs < minp \<Longrightarrow> roll_var minp ddof obs = NaN"
  by (simp add: roll_var_def)

lemma roll_mean_full:
  "minp \<le> length obs \<Longrightarrow> 0 < length obs \<Longrightarrow> roll_mean minp obs = Finite (arithmetic_mean obs)"
  by (simp add: roll_mean_def arithmetic_mean_def)

lemma sum_sq_nonneg: "0 \<le> (\<Sum>x\<leftarrow>obs. (x - (m::real))\<^sup>2)"
  by (rule sum_list_nonneg) auto

lemma roll_std_full:
  assumes "minp \<le> length obs" and "1 < length obs"
  shows "fsqrt (roll_var minp 1 obs) = Finite (sample_stddev obs)"
proof -
  have "0 \<le> (\<Sum>x\<leftarrow>obs. (x - arithmetic_mean obs)\<^sup>2) / (real (length obs) - 1)"
    using assms sum_sq_nonneg by simp
  then show ?thesis
    using assms by (simp add: roll_var_def sample_stddev_def arithmetic_mean_def Let_def)
qed

lemma last_rolling_mean:
  "xs \<noteq> [] \<Longrightarrow> last (rolling_mean w xs) = roll_mean w (rolling_window w (length xs - 1) xs)"
  by (simp add: last_conv_nth length_rolling_mean nth_rolling_mean
      flip: length_greater_0_conv)

lemma last_rolling_std:
  "xs \<noteq> [] \<Longrightarrow>
   last (rolling_std w xs) = fsqrt (roll_var w 1 (rolling_window w (length xs - 1) xs))"
  by (simp add: last_conv_nth length_rolling_std nth_rolling_std
      flip: length_greater_0_conv)

lemma last_rolling_short:
  assumes "xs \<noteq> []" and "length xs < w"
  shows "last (rolling_mean w xs) = NaN" and "last (rolling_std w xs) = NaN"
proof -
  have "length (rolling_window w (length xs - 1) xs) < w"
    using assms by (simp add: length_rolling_window)
  then show "last (rolling_mean w xs) = NaN" and "last (rolling_std w xs) = NaN"
    using assms(1)
    by (simp_all add: last_rolling_mean last_rolling_std roll_mean_short roll_var_short)
qed

text \<open>A window whose standard deviation is zero holds one value only, its mean.\<close>

lemma sqrt_var_zero:
  assumes "fsqrt (roll_var minp 1 obs) = Finite 0"
  shows "minp \<le> length obs \<and> 1 < length obs
     \<and> (\<forall>x\<in>set obs. x = sum_list obs / real (length obs))"
proof -
  let ?m = "sum_list obs / real (length obs)"
  let ?S = "\<Sum>x\<leftarrow>obs. (x - ?m)\<^sup>2"
  have len: "minp \<le> length obs \<and> 1 < length obs"
    using assms by (auto simp: roll_var_def Let_def split: if_splits)
  then have v: "roll_var minp 1 obs = Finite (?S / (real (length obs) - 1))"
    by (simp add: roll_var_def Let_def)
  have nn: "0 \<le> ?S / (real (length obs) - 1)"
    using len sum_sq_nonneg[of ?m obs] by simp
  have "sqrt (?S / (real (length obs) - 1)) = 0"
    using assms nn unfolding v by simp
  then have "?S = 0" using len by simp
  then have "\<forall>y\<in>set (map (\<lambda>x. (x - ?m)\<^sup>2) obs). y = 0"
    by (subst (asm) sum_list_nonneg_eq_0_iff) auto
  then have "\<forall>x\<in>set obs. x = ?m" by simp
  with len show ?thesis by simp
qed

lemma flat_window:
  assumes "xs \<noteq> []" and "last (rolling_std w xs) = Finite 0"
  shows "w \<le> length xs \<and> last (rolling_mean w xs) = Finite (last xs)"
proof -
  let ?i = "length xs - 1"
  let ?obs = "rolling_window w ?i xs"
  have i: "?i < length xs" using assms(1) by (simp flip: length_greater_0_conv)
  have z: "fsqrt (roll_var w 1 ?obs) = Finite 0"
    using assms by (simp add: last_rolling_std)
  note f = sqrt_var_zero[OF z]
  have lw: "length ?obs = min w (Suc ?i)" using i by (rule length_rolling_window)
  have w: "w \<le> length xs" using f lw i by simp
  have pos: "0 < length ?obs" using f by linarith
  then have ne: "?obs \<noteq> []" by auto
  have "last ?obs = last xs"
    using i pos assms(1) unfolding rolling_window_def
    by (simp add: last_conv_nth min_def)
  moreover have "last ?obs \<in> set ?obs" using ne by simp
  ultimately have "last xs = sum_list ?obs / real (length ?obs)" using f by metis
  moreover have "roll_mean w ?obs = Finite (sum_list ?obs / real (length ?obs))"
    using f pos by (simp add: roll_mean_def)
  ultimately show ?thesis using w assms(1) by (simp add: last_rolling_mean)
qed

lemma trailing_samples_Cons_replicate:
  "trailing_samples w w (x # replicate w c) = replicate w c"
  by (rule nth_equalityI) (simp_all add: trailing_samples_def)

lemma arithmetic_mean_replicate: "0 < n \<Longrightarrow> arithmetic_mean (replicate n c) = c"
  by (simp add: arithmetic_mean_def sum_list_replicate)

lemma sample_stddev_replicate: "0 < n \<Longrightarrow> sample_stddev (replicate n c) = 0"
  by (simp add: sample_stddev_def arithmetic_mean_replicate sum_list_replicate)

lemma last_rolling_std_replicate:
  assumes "1 < w" and "w \<le> n"
  shows "last (rolling_std w (replicate n c)) = Finite 0"
proof -
  have "rolling_window w (n - 1) (replicate n c) = replicate w c"
    using assms by (simp add: rolling_window_def min_def)
  then show ?thesis
    using assms by (simp add: last_rolling_std roll_var_def sum_list_replicate)
qed

section \<open>Facts about the analysis cell and the pipeline\<close>

lemma dropna_one: "dropna [(d, Some c)] = [(d, c)]"
  by (simp add: dropna_def map_filter_def)

lemma dropna_nil: "dropna [] = []"
  by (simp add: dropna_def map_filter_def)

lemma dropna_all_null: "(\<forall>row\<in>set rows. snd row = None) \<Longrightarrow> dropna rows = []"
  by (induction rows) (auto simp: dropna_def map_filter_def)

lemma dropna_present:
  "dropna (map (\<lambda>d. (d, Some (f d))) ds) = map (\<lambda>d. (d, f d)) ds"
  by (induction ds) (simp_all add: dropna_def map_filter_def)

lemma dropna_zip:
  "length ds = length vs \<Longrightarrow> dropna (zip ds (map Some vs)) = zip ds vs"
  by (induction ds vs rule: list_induct2) (simp_all add: dropna_def map_filter_def)

lemma analysis_empty: "dropna sp500 = [] \<Longrightarrow> analysis now sp500 = Inl IndexError"
  by (simp add: analysis_def iloc_last_def)

lemma analysis_nonempty:
  assumes "dropna sp500 \<noteq> []"
  shows "\<exists>h j. analysis now sp500 = Inr (h, j)
    \<and> current_price j = Finite (snd (last (dropna sp500)))
    \<and> ma_200 j = last (rolling_mean 200 (map snd (dropna sp500)))
    \<and> std_200 j = last (rolling_std 200 (map snd (dropna sp500)))
    \<and> std_away j = fdiv (fsub (current_price j) (ma_200 j)) (std_200 j)"
proof -
  have "rolling_mean 200 (map snd (dropna sp500)) \<noteq> []"
    and "rolling_std 200 (map snd (dropna sp500)) \<noteq> []"
    using assms by (simp_all add: rolling_mean_def rolling_std_def)
  then show ?thesis
    using assms
    by (simp add: analysis_def iloc_last_def Let_def last_map split: prod.splits)
qed

lemma pipeline_download_error: "pipeline now (Inl e) fs = (Inl e, fs)"
  by (simp add: pipeline_def)

lemma pipeline_analysis_error:
  "analysis now sp500 = Inl e \<Longrightarrow> pipeline now (Inr sp500) fs = (Inl e, fs)"
  by (simp add: pipeline_def)

lemma pipeline_analysis_ok:
  "analysis now sp500 = Inr (h, j) \<Longrightarrow> pipeline now (Inr sp500) fs = (Inr (h, j), fs)"
  by (simp add: pipeline_def)

lemma nan_report:
  assumes "analysis now sp500 = Inr (h, j)" and "std_away j = NaN"
  shows "status j = EXTREME \<and> direction j = ''below'' \<and> \<not> alert j"
  using analysis_Inr[OF assms(1)] assms(2)
  by (simp add: determine_status_def direction_of_def alert_of_def fgt_def)


lemma report_short:
  assumes "dropna sp500 \<noteq> []" and "length (dropna sp500) < 200"
  shows "\<exists>h j. analysis now sp500 = Inr (h, j)
    \<and> ma_200 j = NaN \<and> std_200 j = NaN \<and> std_away j = NaN"
proof -
  have ne: "map snd (dropna sp500) \<noteq> []" and l: "length (map snd (dropna sp500)) < 200"
    using assms by simp_all
  from analysis_nonempty[OF assms(1), of now] obtain h j where
    a: "analysis now sp500 = Inr (h, j)"
    and m: "ma_200 j = last (rolling_mean 200 (map snd (dropna sp500)))"
    and s: "std_200 j = last (rolling_std 200 (map snd (dropna sp500)))"
    and d: "std_away j = fdiv (fsub (current_price j) (ma_200 j)) (std_200 j)"
    by blast
  have "ma_200 j = NaN" "std_200 j = NaN"
    using m s last_rolling_short[OF ne l] by simp_all
  moreover from this d have "std_away j = NaN" by (cases "current_price j") simp_all
  ultimately show ?thesis using a by blast
qed

lemma report_flat:
  assumes "dropna sp500 \<noteq> []"
    and "last (rolling_std 200 (map snd (dropna sp500))) = Finite 0"
  shows "200 \<le> length (dropna sp500) \<and> (\<exists>h j. analysis now sp500 = Inr (h, j)
    \<and> std_200 j = Finite 0 \<and> ma_200 j = current_price j \<and> std_away j = NaN)"
proof -
  have ne: "map snd (dropna sp500) \<noteq> []" using assms by simp
  from analysis_nonempty[OF assms(1), of now] obtain h j where
    a: "analysis now sp500 = Inr (h, j)"
    and p: "current_price j = Finite (snd (last (dropna sp500)))"
    and m: "ma_200 j = last (rolling_mean 200 (map snd (dropna sp500)))"
    and s: "std_200 j = last (rolling_std 200 (map snd (dropna sp500)))"
    and d: "std_away j = fdiv (fsub (current_price j) (ma_200 j)) (std_200 j)"
    by blast
  from flat_window[OF ne assms(2)]
  have w: "200 \<le> length (dropna sp500)" and "ma_200 j = current_price j"
    using m p assms(1) by (simp_all add: last_map)
  moreover from this d s assms(2) p have "std_away j = NaN" by simp
  ultimately show ?thesis using a s assms(2) by auto
qed

subsection \<open>The flat table\<close>

lemma flat_series_closes:
  "dropna flat_series \<noteq> []"
  "last (rolling_std 200 (map snd (dropna flat_series))) = Finite 0"
proof -
  have m: "map snd (dropna flat_series) = replicate 250 100"
    by (simp add: flat_series_def dropna_present comp_def map_replicate_const)
  then show "dropna flat_series \<noteq> []" by auto
  show "last (rolling_std 200 (map snd (dropna flat_series))) = Finite 0"
    unfolding m by (rule last_rolling_std_replicate) simp_all
qed

subsection \<open>The table that ends inside the alert band\<close>

lemma alert_closes_length: "length alert_closes = 200"
  by (simp add: alert_closes_def)

lemma alert_series_closes: "map snd (dropna alert_series) = alert_closes"
proof -
  have l: "length [0..<200] = length alert_closes" by (simp add: alert_closes_length)
  show ?thesis
    unfolding alert_series_def dropna_zip[OF l] using l by (rule map_snd_zip)
qed

lemma alert_series_nonempty: "dropna alert_series \<noteq> []"
proof -
  have "length (map snd (dropna alert_series)) = 200"
    by (simp only: alert_series_closes alert_closes_length)
  then show ?thesis by auto
qed

lemma alert_closes_window: "rolling_window 200 199 alert_closes = alert_closes"
  by (simp add: rolling_window_def alert_closes_length)

lemma alert_closes_sum: "sum_list alert_closes = 20003"
  by (simp add: alert_closes_def sum_list_replicate)

lemma alert_closes_ssq: "(\<Sum>x\<leftarrow>alert_closes. (x - 20003 / 200)\<^sup>2) = 164191 / 200"
  by (simp add: alert_closes_def sum_list_replicate power2_eq_square)

lemma alert_closes_stats:
  "last (rolling_mean 200 alert_closes) = Finite (20003 / 200)"
  "last (rolling_std 200 alert_closes) = Finite (sqrt (164191 / 39800))"
  "last alert_closes = 105"
proof -
  have ne: "alert_closes \<noteq> []" using alert_closes_length by auto
  show "last (rolling_mean 200 alert_closes) = Finite (20003 / 200)"
    by (simp add: last_rolling_mean[OF ne] alert_closes_window roll_mean_def
        alert_closes_length alert_closes_sum Let_def)
  show "last (rolling_std 200 alert_closes) = Finite (sqrt (164191 / 39800))"
    by (simp add: last_rolling_std[OF ne] alert_closes_window roll_var_def
        alert_closes_length alert_closes_sum alert_closes_ssq Let_def)
  show "last alert_closes = 105" by (simp add: alert_closes_def)
qed

lemma alert_sigma:
  "2 \<le> (997 / 200) / sqrt (164191 / 39800)" "(997 / 200) / sqrt (164191 / 39800) \<le> 3"
  "0 < sqrt (164191 / 39800 :: real)"
proof -
  let ?s = "sqrt (164191 / 39800 :: real)"
  show pos: "0 < ?s" by simp
  have "?s \<le> 997 / 400" by (rule real_le_lsqrt) (simp_all add: power2_eq_square)
  then show "2 \<le> (997 / 200) / ?s" using pos by (simp add: pos_le_divide_eq)
  have "997 / 600 \<le> ?s" by (rule real_le_rsqrt) (simp add: power2_eq_square)
  then show "(997 / 200) / ?s \<le> 3" using pos by (simp add: pos_divide_le_eq)
qed

lemma alert_series_report:
  "\<exists>h j. analysis now alert_series = Inr (h, j)
     \<and> std_away j = Finite ((997 / 200) / sqrt (164191 / 39800))
     \<and> direction j = ''above'' \<and> alert j"
proof -
  note ne = alert_series_nonempty
  from analysis_nonempty[OF ne, of now] obtain h j where
    a: "analysis now alert_series = Inr (h, j)"
    and p: "current_price j = Finite (snd (last (dropna alert_series)))"
    and m: "ma_200 j = last (rolling_mean 200 (map snd (dropna alert_series)))"
    and s: "std_200 j = last (rolling_std 200 (map snd (dropna alert_series)))"
    and d: "std_away j = fdiv (fsub (current_price j) (ma_200 j)) (std_200 j)"
    by blast
  have "snd (last (dropna alert_series)) = last alert_closes"
    using ne alert_series_closes by (simp flip: last_map)
  then have d': "std_away j = Finite ((997 / 200) / sqrt (164191 / 39800))"
    using d p m s alert_sigma(3) by (simp add: alert_series_closes alert_closes_stats)
  have "direction j = ''above'' \<and> alert j"
    using analysis_Inr[OF a] alert_sigma unfolding d'
    by (simp add: direction_of_def alert_of_def fgt_def)
  with a d' show ?thesis by blast
qed

section \<open>Facts about the scheduled job\<close>

lemma glob_dashboard:
  "glob_star ''.html'' ''sp500_dashboard.html''"
  "\<not> glob_star ''.png'' ''sp500_dashboard.html''"
  "\<not> glob_star ''.json'' ''sp500_dashboard.html''"
  "\<not> glob_star ''.log'' ''sp500_dashboard.html''"
  by (simp_all add: glob_star_def suffix_to_prefix)

lemma run_analysis_status: "run_analysis monitor wd = (0, snd (monitor wd))"
  by (simp add: run_analysis_def split: prod.splits)

lemma monitor_job_deploys:
  "monitor_job date_out monitor wd pages
     = deploy_pages (create_deploy_dir date_out (snd (monitor wd))) pages"
  by (simp add: monitor_job_def run_analysis_status)

lemma copied_dashboard:
  "cp_glob ''.log'' wd (cp_glob ''.json'' wd (cp_glob ''.png'' wd
     (cp_glob ''.html'' wd Map.empty))) ''sp500_dashboard.html'' = wd ''sp500_dashboard.html''"
  by (simp add: cp_glob_def glob_dashboard)

lemma create_deploy_dir_index:
  "create_deploy_dir date_out wd ''index.html''
     = Some (case wd ''sp500_dashboard.html'' of Some c \<Rightarrow> c | None \<Rightarrow> fallback_index date_out)"
  by (simp add: create_deploy_dir_def Let_def copied_dashboard split: option.splits)

lemma create_deploy_dir_dashboard:
  "create_deploy_dir date_out wd ''sp500_dashboard.html'' = wd ''sp500_dashboard.html''"
  by (simp add: create_deploy_dir_def Let_def copied_dashboard split: option.splits)

lemma deploy_pages_nonempty: "dep n = Some c \<Longrightarrow> deploy_pages dep pages = dep"
  by (auto simp: deploy_pages_def)

lemma deploy_created:
  "deploy_pages (create_deploy_dir date_out wd) pages = create_deploy_dir date_out wd"
  by (rule deploy_pages_nonempty[where n = "''index.html''"]) (rule create_deploy_dir_index)

lemma failed_run: "pipeline_process now (Inr []) wd = (1, wd)"
  by (simp add: pipeline_process_def pipeline_def analysis_def dropna_def map_filter_def
      iloc_last_def exit_status_def)

section \<open>The status classifier\<close>

text \<open>
  Claim C3. For every real deviation \<open>x\<close>, the classifier applied to \<open>\<bar>x\<bar>\<close> gives
  NORMAL when \<open>\<bar>x\<bar> < 2\<close>, ALERT when \<open>2 \<le> \<bar>x\<bar> \<le> 3\<close>, both bounds included, and
  EXTREME when \<open>\<bar>x\<bar> > 3\<close>; in particular 2 and 3 and -2.5 are ALERT, 1.999 is NORMAL
  and 3.0001 is EXTREME.
\<close>

theorem classify_thresholds:
  "(\<bar>x\<bar> < 2 \<longrightarrow> determine_status (fabs (Finite x)) = (NORMAL, ''#44ff44''))
   \<and> (2 \<le> \<bar>x\<bar> \<and> \<bar>x\<bar> \<le> 3 \<longrightarrow> determine_status (fabs (Finite x)) = (ALERT, ''#ff4444''))
   \<and> (3 < \<bar>x\<bar> \<longrightarrow> determine_status (fabs (Finite x)) = (EXTREME, ''#ff8800''))
   \<and> classify (Finite 2) = ALERT \<and> classify (Finite 1.999) = NORMAL
   \<and> classify (Finite 3) = ALERT \<and> classify (Finite 3.0001) = EXTREME
   \<and> classify (Finite (- 2.5)) = ALERT"
  by (simp add: determine_status_def classify_def)

theorem classify_thresholds_witness:
  "\<bar>1::real\<bar> < 2 \<and> determine_status (fabs (Finite 1)) = (NORMAL, ''#44ff44'')
   \<and> 2 \<le> \<bar>5 / 2 :: real\<bar> \<and> \<bar>5 / 2 :: real\<bar> \<le> 3
   \<and> determine_status (fabs (Finite (5 / 2))) = (ALERT, ''#ff4444'')
   \<and> 3 < \<bar>- 4 :: real\<bar> \<and> determine_status (fabs (Finite (- 4))) = (EXTREME, ''#ff8800'')"
  using classify_thresholds[of 1] classify_thresholds[of "5 / 2"]
    classify_thresholds[of "- 4"]
  by simp

text \<open>
  Claim C6. For every deviation, the direction is "above" exactly when the signed
  value is strictly greater than 0; a deviation of exactly 0 gives "below".
\<close>

theorem direction_above_iff_positive:
  "(direction_of s = ''above'') = fgt s (Finite 0)
   \<and> (direction_of (Finite x) = ''above'') = (0 < x)
   \<and> direction_of (Finite 0) = ''below''"
  by (simp add: direction_of_def fgt_def)

theorem direction_above_iff_positive_witness:
  "direction_of (Finite (1 / 2)) = ''above'' \<and> direction_of (Finite (- 3)) \<noteq> ''above''
   \<and> direction_of NaN \<noteq> ''above'' \<and> direction_of PInf = ''above''"
  using direction_above_iff_positive[of "Finite (1 / 2)" "1 / 2"]
    direction_above_iff_positive[of "Finite (- 3)" "- 3"]
    direction_above_iff_positive[of NaN 0] direction_above_iff_positive[of PInf 0]
  by (simp add: fgt_def)

text \<open>
  Claim C4. Round trip: for every JSON summary the cell produces, the classifier applied
  again to its \<^verbatim>\<open>std_away\<close> entry gives the \<^verbatim>\<open>status\<close> and the \<^verbatim>\<open>alert\<close> entries of
  that same summary.
\<close>

theorem json_roundtrip_classifier:
  "analysis now sp500 = Inr (h, j) \<Longrightarrow>
   classify (std_away j) = status j \<and> alert_of (fabs (std_away j)) = alert j"
  by (simp add: analysis_Inr classify_def)

theorem json_roundtrip_classifier_witness:
  "map_sum id (\<lambda>(h, j). (classify (std_away j), status j, alert_of (fabs (std_away j)), alert j))
     (analysis ''t'' alert_series) = Inr (ALERT, ALERT, True, True)"
proof -
  from alert_series_report[of "''t''"] obtain h j where
    a: "analysis ''t'' alert_series = Inr (h, j)" and al: "alert j" by blast
  have "status j = ALERT"
    using analysis_Inr(1,2)[OF a] al by (simp add: alert_iff)
  with json_roundtrip_classifier[OF a] al a show ?thesis by simp
qed

text \<open>
  Claim C5. In every JSON summary the cell produces, \<^verbatim>\<open>alert\<close> is true if and only if
  \<^verbatim>\<open>status\<close> is the ALERT tier.
\<close>

theorem alert_iff_status_ALERT:
  "analysis now sp500 = Inr (h, j) \<Longrightarrow> alert j = (status j = ALERT)"
  by (simp add: analysis_Inr alert_iff)

theorem alert_iff_status_ALERT_witness:
  "map_sum id (\<lambda>(h, j). (alert j, status j = ALERT)) (analysis ''t'' alert_series)
     = Inr (True, True)
   \<and> map_sum id (\<lambda>(h, j). (alert j, status j = ALERT)) (analysis ''t'' [(0, Some 100)])
     = Inr (False, False)"
proof -
  from alert_series_report[of "''t''"] obtain h j where
    a: "analysis ''t'' alert_series = Inr (h, j)" and al: "alert j" by blast
  have 1: "status j = ALERT" using alert_iff_status_ALERT[OF a] al by simp
  have "dropna [(0, Some 100)] \<noteq> []" "length (dropna [(0, Some 100)]) < 200"
    by (simp_all add: dropna_one)
  from report_short[OF this, of "''t''"] obtain h' j' where
    b: "analysis ''t'' [(0, Some 100)] = Inr (h', j')" and n: "std_away j' = NaN" by blast
  have 2: "status j' \<noteq> ALERT"
    using alert_iff_status_ALERT[OF b] nan_report[OF b n] by simp
  show ?thesis using a al 1 b 2 nan_report[OF b n] by simp
qed

section \<open>The statistics engine\<close>

text \<open>
  Claim C7. For every price sequence of at least 200 samples, the rolling mean and the
  rolling standard deviation are undefined (NaN, not zero) at each of the first 199
  positions, and at every position \<open>i \<ge> 199\<close> they are the arithmetic mean and the
  sample standard deviation of exactly the 200 samples that end at position \<open>i\<close>,
  \<open>i\<close> included.
\<close>

theorem rolling_stats_trailing_window:
  assumes "200 \<le> length xs"
  shows "length (rolling_mean 200 xs) = length xs \<and> length (rolling_std 200 xs) = length xs
    \<and> (\<forall>i<199. rolling_mean 200 xs ! i = NaN \<and> rolling_std 200 xs ! i = NaN)
    \<and> (\<forall>i. 199 \<le> i \<and> i < length xs \<longrightarrow>
          length (trailing_samples 200 i xs) = 200
        \<and> trailing_samples 200 i xs ! 0 = xs ! (i - 199)
        \<and> trailing_samples 200 i xs ! 199 = xs ! i
        \<and> rolling_mean 200 xs ! i = Finite (arithmetic_mean (trailing_samples 200 i xs))
        \<and> rolling_std 200 xs ! i = Finite (sample_stddev (trailing_samples 200 i xs)))"
proof (intro conjI allI impI)
  fix i :: nat assume "i < 199"
  then have i: "i < length xs" and l: "length (rolling_window 200 i xs) < 200"
    using assms by (simp_all add: length_rolling_window)
  show "rolling_mean 200 xs ! i = NaN"
    using i l by (simp add: nth_rolling_mean roll_mean_short)
  show "rolling_std 200 xs ! i = NaN"
    using i l by (simp add: nth_rolling_std roll_var_short)
next
  fix i assume h: "199 \<le> i \<and> i < length xs"
  then have w: "rolling_window 200 i xs = trailing_samples 200 i xs"
    by (simp add: rolling_window_full)
  show len: "length (trailing_samples 200 i xs) = 200"
    by (simp add: trailing_samples_def)
  show "trailing_samples 200 i xs ! 0 = xs ! (i - 199)"
    using h by (simp add: trailing_samples_def)
  show "trailing_samples 200 i xs ! 199 = xs ! i"
    using h by (simp add: trailing_samples_def)
  show "rolling_mean 200 xs ! i = Finite (arithmetic_mean (trailing_samples 200 i xs))"
    using h len by (simp add: nth_rolling_mean w roll_mean_full)
  show "rolling_std 200 xs ! i = Finite (sample_stddev (trailing_samples 200 i xs))"
    using h len roll_std_full[of 200 "trailing_samples 200 i xs"]
    by (simp add: nth_rolling_std w)
qed (simp_all add: length_rolling_mean length_rolling_std)

theorem rolling_stats_trailing_window_witness:
  "200 \<le> length (7 # replicate 200 (100::real))
   \<and> rolling_mean 200 (7 # replicate 200 100) ! 198 = NaN
   \<and> rolling_std 200 (7 # replicate 200 100) ! 198 = NaN
   \<and> rolling_mean 200 (7 # replicate 200 100) ! 200 = Finite 100
   \<and> rolling_std 200 (7 # replicate 200 100) ! 200 = Finite 0"
proof -
  have l: "200 \<le> length (7 # replicate 200 (100::real))" by simp
  have t: "trailing_samples 200 200 (7 # replicate 200 100) = replicate 200 100"
    by (rule trailing_samples_Cons_replicate)
  from rolling_stats_trailing_window[OF l] have
    "\<forall>i<199. rolling_mean 200 (7 # replicate 200 100) ! i = NaN
        \<and> rolling_std 200 (7 # replicate 200 100) ! i = NaN"
    and "\<forall>i. 199 \<le> i \<and> i < length (7 # replicate 200 (100::real)) \<longrightarrow>
        rolling_mean 200 (7 # replicate 200 100) ! i
          = Finite (arithmetic_mean (trailing_samples 200 i (7 # replicate 200 100)))
      \<and> rolling_std 200 (7 # replicate 200 100) ! i
          = Finite (sample_stddev (trailing_samples 200 i (7 # replicate 200 100)))"
    by blast+
  then have "rolling_mean 200 (7 # replicate 200 100) ! 198 = NaN
      \<and> rolling_std 200 (7 # replicate 200 100) ! 198 = NaN"
    and "rolling_mean 200 (7 # replicate 200 100) ! 200
          = Finite (arithmetic_mean (trailing_samples 200 200 (7 # replicate 200 100)))
      \<and> rolling_std 200 (7 # replicate 200 100) ! 200
          = Finite (sample_stddev (trailing_samples 200 200 (7 # replicate 200 100)))"
    by simp_all
  then show ?thesis
    using l unfolding t by (simp add: arithmetic_mean_replicate sample_stddev_replicate)
qed

section \<open>Failures of the pipeline\<close>

text \<open>
  Claim C1, as the code has it. A table with at least one and fewer than 200 prices
  does not make the pipeline fail: the run returns its report, in which the moving
  average, the standard deviation and the deviation are NaN, the status is EXTREME,
  the direction "below" and the alert false. A table without any price ends the run
  with IndexError. No file is written in either case.
\<close>

theorem short_history_emits_nan_report:
  assumes "length (dropna sp500) < 200"
  shows "(dropna sp500 = [] \<longrightarrow> pipeline now (Inr sp500) fs = (Inl IndexError, fs))
    \<and> (dropna sp500 \<noteq> [] \<longrightarrow>
         (\<exists>h j. pipeline now (Inr sp500) fs = (Inr (h, j), fs)
            \<and> ma_200 j = NaN \<and> std_200 j = NaN \<and> std_away j = NaN
            \<and> status j = EXTREME \<and> direction j = ''below'' \<and> \<not> alert j))"
proof (intro conjI impI)
  assume "dropna sp500 = []"
  then show "pipeline now (Inr sp500) fs = (Inl IndexError, fs)"
    by (simp add: analysis_empty pipeline_analysis_error)
next
  assume "dropna sp500 \<noteq> []"
  from report_short[OF this assms, of now] obtain h j where
    a: "analysis now sp500 = Inr (h, j)"
    and n: "ma_200 j = NaN" "std_200 j = NaN" "std_away j = NaN" by blast
  show "\<exists>h j. pipeline now (Inr sp500) fs = (Inr (h, j), fs)
            \<and> ma_200 j = NaN \<and> std_200 j = NaN \<and> std_away j = NaN
            \<and> status j = EXTREME \<and> direction j = ''below'' \<and> \<not> alert j"
    using pipeline_analysis_ok[OF a] n nan_report[OF a n(3)] by blast
qed

text \<open>
  Claim C1 as stated fails on a table of one price: the run does not fail, it returns
  a report whose deviation is NaN and whose status is EXTREME.
\<close>

theorem short_history_no_failure:
  "length (dropna [(0, Some 100)]) < 200
   \<and> \<not> isl (fst (pipeline ''t'' (Inr [(0, Some 100)]) Map.empty))
   \<and> map_sum id (\<lambda>(h, j). (std_away j, status j))
        (fst (pipeline ''t'' (Inr [(0, Some 100)]) Map.empty)) = Inr (NaN, EXTREME)"
proof -
  have "dropna [(0, Some 100)] \<noteq> []" "length (dropna [(0, Some 100)]) < 200"
    by (simp_all add: dropna_one)
  from report_short[OF this, of "''t''"] obtain h j where
    a: "analysis ''t'' [(0, Some 100)] = Inr (h, j)" and n: "std_away j = NaN" by blast
  from pipeline_analysis_ok[OF a, of Map.empty] n nan_report[OF a n] show ?thesis
    by (simp add: dropna_one)
qed

theorem short_history_emits_nan_report_witness:
  "length (dropna []) < 200
   \<and> pipeline ''t'' (Inr []) [''sp500_analysis.json'' \<mapsto> Text ''old'']
       = (Inl IndexError, [''sp500_analysis.json'' \<mapsto> Text ''old''])
   \<and> length (dropna [(0, Some 100)]) < 200
   \<and> map_sum id (\<lambda>(h, j). (std_away j, status j))
        (fst (pipeline ''t'' (Inr [(0, Some 100)]) Map.empty)) = Inr (NaN, EXTREME)
   \<and> length (dropna (map (\<lambda>d. (d, Some (100 + real d))) [0..<199])) < 200
   \<and> map_sum id (\<lambda>(h, j). (ma_200 j, std_200 j, std_away j, status j, direction j, alert j))
        (fst (pipeline ''t'' (Inr (map (\<lambda>d. (d, Some (100 + real d))) [0..<199])) Map.empty))
       = Inr (NaN, NaN, NaN, EXTREME, ''below'', False)
   \<and> snd (pipeline ''t'' (Inr (map (\<lambda>d. (d, Some (100 + real d))) [0..<199])) Map.empty)
       = Map.empty"
proof -
  let ?T = "map (\<lambda>d. (d, Some (100 + real d))) [0..<199]"
  have d: "dropna ?T = map (\<lambda>d. (d, 100 + real d)) [0..<199]"
    by (rule dropna_present)
  have l: "length (dropna ?T) < 200" and ne: "dropna ?T \<noteq> []"
    unfolding d by simp_all
  from short_history_emits_nan_report[OF l, of "''t''" Map.empty] ne
  obtain h j where "pipeline ''t'' (Inr ?T) Map.empty = (Inr (h, j), Map.empty)"
    and "ma_200 j = NaN \<and> std_200 j = NaN \<and> std_away j = NaN"
    and "status j = EXTREME \<and> direction j = ''below'' \<and> \<not> alert j"
    by blast
  then have "map_sum id
        (\<lambda>(h, j). (ma_200 j, std_200 j, std_away j, status j, direction j, alert j))
        (fst (pipeline ''t'' (Inr ?T) Map.empty)) = Inr (NaN, NaN, NaN, EXTREME, ''below'', False)
      \<and> snd (pipeline ''t'' (Inr ?T) Map.empty) = Map.empty"
    by simp
  then show ?thesis
    using l short_history_emits_nan_report[of "[]" "''t''"
      "[''sp500_analysis.json'' \<mapsto> Text ''old'']"]
    short_history_emits_nan_report[of "[(0, Some 100)]" "''t''" Map.empty]
    by (auto simp: dropna_one dropna_nil)
qed

text \<open>
  Claim C2, as the code has it. When the standard deviation of the last 200 prices is
  zero, the pipeline does not fail: there are at least 200 prices, the moving average
  equals the last price, the division is zero by zero, and the run returns a report
  whose standard deviation is 0 and whose deviation is NaN, with status EXTREME,
  direction "below" and alert false.
\<close>

theorem flat_series_emits_nan_report:
  assumes "dropna sp500 \<noteq> []"
    and "last (rolling_std 200 (map snd (dropna sp500))) = Finite 0"
  shows "200 \<le> length (dropna sp500)
    \<and> (\<exists>h j. fst (pipeline now (Inr sp500) fs) = Inr (h, j)
          \<and> std_200 j = Finite 0 \<and> ma_200 j = current_price j \<and> std_away j = NaN
          \<and> status j = EXTREME \<and> direction j = ''below'' \<and> \<not> alert j)"
proof -
  from report_flat[OF assms, of now] obtain h j where
    l: "200 \<le> length (dropna sp500)"
    and a: "analysis now sp500 = Inr (h, j)"
    and n: "std_200 j = Finite 0" "ma_200 j = current_price j" "std_away j = NaN" by blast
  have "fst (pipeline now (Inr sp500) fs) = Inr (h, j)"
    using pipeline_analysis_ok[OF a, of fs] by simp
  then show ?thesis
    using l n nan_report[OF a n(3)] by blast
qed

text \<open>
  Claim C2 as stated fails on the flat table of 250 days: the standard deviation at the
  last day is zero, the run does not fail, and the report it returns has a NaN
  deviation.
\<close>

theorem flat_series_no_failure:
  "last (rolling_std 200 (map snd (dropna flat_series))) = Finite 0
   \<and> \<not> isl (fst (pipeline ''t'' (Inr flat_series) Map.empty))
   \<and> map_sum id (std_away \<circ> snd) (fst (pipeline ''t'' (Inr flat_series) Map.empty)) = Inr NaN"
proof -
  from report_flat[OF flat_series_closes, of "''t''"] obtain h j where
    a: "analysis ''t'' flat_series = Inr (h, j)" and n: "std_away j = NaN" by blast
  from pipeline_analysis_ok[OF a, of Map.empty] n flat_series_closes(2) show ?thesis
    by simp
qed

theorem flat_series_emits_nan_report_witness:
  "dropna flat_series \<noteq> []
   \<and> last (rolling_std 200 (map snd (dropna flat_series))) = Finite 0
   \<and> map_sum id (\<lambda>(h, j). (std_200 j, std_away j, status j, alert j))
        (fst (pipeline ''t'' (Inr flat_series) Map.empty))
       = Inr (Finite 0, NaN, EXTREME, False)"
  using flat_series_emits_nan_report[OF flat_series_closes, of "''t''" Map.empty]
    flat_series_closes
  by auto

text \<open>
  Claim C8. If the download raises, or returns an empty table or a table whose prices
  are all null, the run fails: it ends with the exception (the download's, or
  IndexError at \<^verbatim>\<open>closes.iloc[-1]\<close>), the working directory is as before, no document
  written, and the exit status is not zero.
\<close>

theorem data_unavailable_is_fatal:
  assumes "download = Inl e \<or> download = Inr []
     \<or> (\<exists>sp500. download = Inr sp500 \<and> (\<forall>row\<in>set sp500. snd row = None))"
  shows "pipeline now download fs
           = (Inl (case download of Inl e' \<Rightarrow> e' | Inr _ \<Rightarrow> IndexError), fs)
    \<and> exit_status (fst (pipeline now download fs)) \<noteq> 0"
proof -
  have "pipeline now download fs
           = (Inl (case download of Inl e' \<Rightarrow> e' | Inr _ \<Rightarrow> IndexError), fs)"
    using assms
    by (auto simp: pipeline_download_error pipeline_analysis_error analysis_empty
        dropna_nil dropna_all_null)
  then show ?thesis by (simp add: exit_status_def)
qed

theorem data_unavailable_is_fatal_witness:
  "pipeline ''t'' (Inl DownloadError) [''a.txt'' \<mapsto> Text ''x'']
      = (Inl DownloadError, [''a.txt'' \<mapsto> Text ''x''])
   \<and> pipeline ''t'' (Inr []) Map.empty = (Inl IndexError, Map.empty)
   \<and> pipeline ''t'' (Inr [(0, None), (1, None)]) Map.empty = (Inl IndexError, Map.empty)
   \<and> exit_status (fst (pipeline ''t'' (Inr [(0, None), (1, None)]) Map.empty)) = 1"
  using data_unavailable_is_fatal[of "Inl DownloadError" DownloadError "''t''"
      "[''a.txt'' \<mapsto> Text ''x'']"]
    data_unavailable_is_fatal[of "Inr []" DownloadError "''t''" Map.empty]
    data_unavailable_is_fatal[of "Inr [(0, None), (1, None)]" DownloadError "''t''" Map.empty]
  by (simp add: exit_status_def)




section \<open>The scheduled job and the exit status\<close>

text \<open>
  Claim C9, as the code has it. The job does not look at the exit status of the
  pipeline: the step that runs it ends with status 0 in every case, and the job goes on
  to deploy. What it publishes depends on the working directory the pipeline leaves:
  without \<^verbatim>\<open>sp500_dashboard.html\<close> the job falls back to the error page as
  \<^verbatim>\<open>index.html\<close> and publishes no dashboard; with that file there, the file is
  published, also as \<^verbatim>\<open>index.html\<close>.
\<close>

theorem job_deploys_regardless_of_status:
  "monitor_job date_out monitor wd pages
     = deploy_pages (create_deploy_dir date_out (snd (monitor wd))) pages
   \<and> (snd (monitor wd) ''sp500_dashboard.html'' = None \<longrightarrow>
        monitor_job date_out monitor wd pages ''index.html'' = Some (fallback_index date_out)
      \<and> monitor_job date_out monitor wd pages ''sp500_dashboard.html'' = None)
   \<and> (\<forall>c. snd (monitor wd) ''sp500_dashboard.html'' = Some c \<longrightarrow>
        monitor_job date_out monitor wd pages ''index.html'' = Some c
      \<and> monitor_job date_out monitor wd pages ''sp500_dashboard.html'' = Some c)"
  by (simp add: monitor_job_deploys deploy_created create_deploy_dir_index
      create_deploy_dir_dashboard)

text \<open>
  Claim C9 as stated fails when the working directory holds a dashboard from before
  the run: the pipeline exits with status 1 and writes nothing, and the job neither
  skips the deployment nor falls back; it publishes the old dashboard as
  \<^verbatim>\<open>index.html\<close>.
\<close>

theorem job_publishes_stale_dashboard_on_failure:
  "fst (pipeline_process ''t'' (Inr []) [''sp500_dashboard.html'' \<mapsto> Text ''stale'']) \<noteq> 0
   \<and> monitor_job ''d'' (pipeline_process ''t'' (Inr []))
        [''sp500_dashboard.html'' \<mapsto> Text ''stale''] Map.empty \<noteq> Map.empty
   \<and> monitor_job ''d'' (pipeline_process ''t'' (Inr []))
        [''sp500_dashboard.html'' \<mapsto> Text ''stale''] Map.empty ''index.html''
      = Some (Text ''stale'')
   \<and> monitor_job ''d'' (pipeline_process ''t'' (Inr []))
        [''sp500_dashboard.html'' \<mapsto> Text ''stale''] Map.empty ''index.html''
      \<noteq> Some (fallback_index ''d'')"
proof -
  let ?job = "monitor_job ''d'' (pipeline_process ''t'' (Inr []))
        [''sp500_dashboard.html'' \<mapsto> Text ''stale''] Map.empty"
  have i: "?job ''index.html'' = Some (Text ''stale'')"
    by (simp add: monitor_job_deploys deploy_created create_deploy_dir_index failed_run)
  then have "?job \<noteq> Map.empty" by auto
  moreover have "Text ''stale'' \<noteq> fallback_index ''d''" by (simp add: fallback_index_def)
  ultimately show ?thesis using i by (simp add: failed_run)
qed

theorem job_deploys_regardless_of_status_witness:
  "snd (pipeline_process ''t'' (Inr []) Map.empty) ''sp500_dashboard.html'' = None
   \<and> fst (pipeline_process ''t'' (Inr []) Map.empty) = 1
   \<and> monitor_job ''d'' (pipeline_process ''t'' (Inr [])) Map.empty Map.empty ''index.html''
       = Some (fallback_index ''d'')
   \<and> snd (pipeline_process ''t'' (Inr []) [''sp500_dashboard.html'' \<mapsto> Text ''stale''])
       ''sp500_dashboard.html'' = Some (Text ''stale'')
   \<and> monitor_job ''d'' (pipeline_process ''t'' (Inr []))
        [''sp500_dashboard.html'' \<mapsto> Text ''stale''] Map.empty ''sp500_dashboard.html''
       = Some (Text ''stale'')"
  using job_deploys_regardless_of_status[of "''d''" "pipeline_process ''t'' (Inr [])"
      Map.empty Map.empty]
    job_deploys_regardless_of_status[of "''d''" "pipeline_process ''t'' (Inr [])"
      "[''sp500_dashboard.html'' \<mapsto> Text ''stale'']" Map.empty]
  by (auto simp: failed_run)

end
